theory Spec2Isabelle
  imports Complex_Main
begin

section \<open>Values of the host language\<close>

text \<open>
  The library is dynamically typed JavaScript. The fragment of its values that the
  embedded functions inspect: \<open>undefined\<close>, \<open>null\<close>, numbers, strings and arrays of
  integers (a pitch in array notation). A number is a real or NaN (no infinities); the
  components of a pitch are integers, as the source documents them
  (\<open>@param {Integer}\<close>).

  The source computes in double precision. A sum, difference or product of integers is
  exact there when it is of magnitude at most \<open>2^53\<close>, and is rounded beyond; the
  embedding computes in unbounded integers and in reals, so it is the source on the
  exact range only. A statement that holds of the source on a bounded range only says
  so in its hypotheses.
\<close>

datatype jsval =
    JUndefined
  | JNull
  | JNum real
  | JNaN
  | JStr string
  | JArr "int list"

text \<open>
  What a call can end in other than a value: a thrown error, or a result with a NaN
  component, which an array of integers cannot hold (\<open>NotANumber\<close>).
\<close>

datatype js_fault =
    TypeError
  | RangeError
  | DirectionNotValid jsval
  | NotANumber

text \<open>\<open>isArr = Array.isArray\<close>, and truthiness as \<open>||\<close> and \<open>?:\<close> test it.\<close>

fun isArr :: "jsval \<Rightarrow> bool" where
  "isArr (JArr _) = True"
| "isArr _ = False"

fun truthy :: "jsval \<Rightarrow> bool" where
  "truthy JUndefined = False"
| "truthy JNull = False"
| "truthy (JNum x) = (x \<noteq> 0)"
| "truthy JNaN = False"
| "truthy (JStr s) = (s \<noteq> [])"
| "truthy (JArr _) = True"

text \<open>
  The remainder operator \<open>%\<close> on integers truncates towards zero: the result has the
  sign of the dividend.
\<close>

definition js_rem :: "int \<Rightarrow> int \<Rightarrow> int" where
  "js_rem a b = sgn a * (\<bar>a\<bar> mod \<bar>b\<bar>)"

section \<open>Pitch encoding\<close>

text \<open>\<open>const FIFTHS = [0, 2, 4, -1, 1, 3, 5]\<close>\<close>

definition FIFTHS :: "int list" where
  "FIFTHS = [0, 2, 4, -1, 1, 3, 5]"

text \<open>
  \<open>const encPC = (step, alt) => FIFTHS[step] + 7 * alt\<close>, for a step in range and
  while the product and the sum are of magnitude at most \<open>2^53\<close>: beyond, the source
  rounds them (at step 1 and alteration \<open>2^53\<close> it gives \<open>7 * 2^53\<close>, without the 2),
  which is not modelled.
\<close>

definition encPC :: "int \<Rightarrow> int \<Rightarrow> int" where
  "encPC step alt = FIFTHS ! nat step + 7 * alt"

text \<open>\<open>const fifthsSpan = (f) => Math.floor(f * 7 / 12)\<close>\<close>

definition fifthsSpan :: "int \<Rightarrow> int" where
  "fifthsSpan f = (f * 7) div 12"

text \<open>\<open>const FIFTH_OCTS = FIFTHS.map(fifthsSpan)\<close>\<close>

definition FIFTH_OCTS :: "int list" where
  "FIFTH_OCTS = map fifthsSpan FIFTHS"

text \<open>
  \<open>const encOct = (step, alt, oct) => oct - FIFTH_OCTS[step] - 4 * alt\<close>, while the
  product and the differences are of magnitude at most \<open>2^53\<close>: beyond, the source
  rounds them, which is not modelled.
\<close>

definition encOct :: "int \<Rightarrow> int \<Rightarrow> int \<Rightarrow> int" where
  "encOct step alt oct = oct - FIFTH_OCTS ! nat step - 4 * alt"

text \<open>
  \<open>function pitch (step, alt, oct, dir)\<close>. The octave and the direction are optional
  (\<open>None\<close> is an argument that is not a number); \<open>None\<close> as result is \<open>null\<close>.
  The alteration is an integer, for which \<open>alt || 0\<close> is \<open>alt\<close>.
\<close>

definition pitch :: "int \<Rightarrow> int \<Rightarrow> int option \<Rightarrow> int option \<Rightarrow> int list option" where
  "pitch step alt oct dir =
     (if step < 0 \<or> step > 6 then None
      else let pc = encPC step alt in
        case oct of
          None \<Rightarrow> Some [pc]
        | Some oc \<Rightarrow>
            let eo = encOct step alt oc in
            (case dir of
               None \<Rightarrow> Some [pc, eo]
             | Some dr \<Rightarrow>
                 let d = (if dr < 0 then - 1 else 1) in
                 Some [d * pc, d * eo, d]))"

text \<open>
  The shape tests. \<open>p[k]\<close> is a number exactly when the array has an element at
  index \<open>k\<close>.
\<close>

fun isPitch :: "jsval \<Rightarrow> bool" where
  "isPitch (JArr (f # _)) = True"
| "isPitch _ = False"

fun isPitchClass :: "jsval \<Rightarrow> bool" where
  "isPitchClass (JArr p) = (length p = 1)"
| "isPitchClass _ = False"

fun hasOct :: "jsval \<Rightarrow> bool" where
  "hasOct (JArr (f # oc # _)) = True"
| "hasOct _ = False"

fun isPitchNote :: "jsval \<Rightarrow> bool" where
  "isPitchNote (JArr p) = (hasOct (JArr p) \<and> length p = 2)"
| "isPitchNote _ = False"

fun isInterval :: "jsval \<Rightarrow> bool" where
  "isInterval (JArr (f # oc # d # _)) = True"
| "isInterval _ = False"

section \<open>Pitch decoding\<close>

text \<open>
  \<open>function unaltered (f) { const i = (f + 1) % 7; return i < 0 ? 7 + i : i }\<close>
\<close>

definition unaltered :: "int \<Rightarrow> int" where
  "unaltered f = (let i = js_rem (f + 1) 7 in if i < 0 then 7 + i else i)"

text \<open>\<open>const STEPS = [3, 0, 4, 1, 5, 2, 6]\<close>\<close>

definition STEPS :: "int list" where
  "STEPS = [3, 0, 4, 1, 5, 2, 6]"

definition decodeStep :: "int \<Rightarrow> int" where
  "decodeStep f = STEPS ! nat (unaltered f)"

definition decodeAlt :: "int \<Rightarrow> int" where
  "decodeAlt f = (f + 1) div 7"

record decoded =
  step :: int
  alt :: int
  oct :: "int option"
  dir :: "int option"

text \<open>
  \<open>function decode (p)\<close>, on an array. \<open>p[2] || null\<close> is \<open>null\<close> also for a third
  component 0. On the empty array the source reads \<open>undefined\<close> and computes an
  object of \<open>undefined\<close> and NaN fields: \<open>None\<close>.
\<close>

fun decode :: "int list \<Rightarrow> decoded option" where
  "decode [] = None"
| "decode (f # rest) =
     (let s = decodeStep f;
          a = decodeAlt f;
          oc = (case rest of [] \<Rightarrow> None | p1 # _ \<Rightarrow> Some (p1 + 4 * a + FIFTH_OCTS ! nat s));
          d = (case rest of p1 # p2 # _ \<Rightarrow> (if p2 \<noteq> 0 then Some p2 else None) | _ \<Rightarrow> None)
      in Some \<lparr> step = s, alt = a, oct = oc, dir = d \<rparr>)"

section \<open>External collaborators\<close>

text \<open>
  The two text grammars (\<open>note-parser\<close>, \<open>interval-notation\<close>) are libraries outside the
  repository, and the conversion of a string to a number is the host language's; the
  embedding takes them as parameters. A grammar returns \<open>None\<close> for \<open>null\<close>.
\<close>

record parsed_note =
  n_step :: int
  n_alt :: int
  n_oct :: "int option"

record parsed_ivl =
  i_simple :: int
  i_alt :: int
  i_oct :: int
  i_dir :: int

record ext =
  note_parse :: "string \<Rightarrow> parsed_note option"
  ivl_parse :: "string \<Rightarrow> parsed_ivl option"
  ivl_type :: "int \<Rightarrow> string"
  ivl_altToQ :: "int \<Rightarrow> int \<Rightarrow> string"
  to_number :: "string \<Rightarrow> real option"

section \<open>Pitch parsers\<close>

text \<open>
  \<open>const cache = {}\<close>: one object, shared by both parsers. An entry is an array (the
  only truthy value a parser stores); a stored \<open>null\<close> is read as falsy, like a missing
  entry, and is not recorded. Properties the object inherits are not modelled.
\<close>

type_synonym cache = "string \<rightharpoonup> int list"

text \<open>
  \<open>const cached = (parser) => (str) => { if (typeof str !== 'string') return null;
  return cache[str] || (cache[str] = parser(str)) }\<close>
\<close>

definition cached :: "(string \<Rightarrow> int list option) \<Rightarrow> cache \<Rightarrow> jsval \<Rightarrow> jsval \<times> cache" where
  "cached parser c v =
     (case v of
        JStr s \<Rightarrow>
          (case c s of
             Some p \<Rightarrow> (JArr p, c)
           | None \<Rightarrow>
               (case parser s of
                  Some p \<Rightarrow> (JArr p, c(s \<mapsto> p))
                | None \<Rightarrow> (JNull, c)))
      | _ \<Rightarrow> (JNull, c))"

definition parseNote :: "ext \<Rightarrow> cache \<Rightarrow> jsval \<Rightarrow> jsval \<times> cache" where
  "parseNote E =
     cached (\<lambda>s. case note_parse E s of
                    Some n \<Rightarrow> pitch (n_step n) (n_alt n) (n_oct n) None
                  | None \<Rightarrow> None)"

definition parseIvl :: "ext \<Rightarrow> cache \<Rightarrow> jsval \<Rightarrow> jsval \<times> cache" where
  "parseIvl E =
     cached (\<lambda>s. case ivl_parse E s of
                    Some i \<Rightarrow> pitch (i_simple i - 1) (i_alt i) (Some (i_oct i)) (Some (i_dir i))
                  | None \<Rightarrow> None)"

text \<open>\<open>const parsePitch = (str) => parseNote(str) || parseIvl(str)\<close>\<close>

definition parsePitch :: "ext \<Rightarrow> cache \<Rightarrow> jsval \<Rightarrow> jsval \<times> cache" where
  "parsePitch E c v =
     (case parseNote E c v of
        (r, c1) \<Rightarrow> if truthy r then (r, c1) else parseIvl E c1 v)"

section \<open>Pitch to string\<close>

text \<open>
  A number concatenated to a string is written in decimal (the exponent notation of
  very large numbers is not modelled).
\<close>

fun show_nat :: "nat \<Rightarrow> string" where
  "show_nat n =
     (if n < 10 then [''0123456789'' ! n]
      else show_nat (n div 10) @ [''0123456789'' ! (n mod 10)])"

declare show_nat.simps [simp del]

definition show_int :: "int \<Rightarrow> string" where
  "show_int i = (if i < 0 then CHR ''-'' # show_nat (nat (- i)) else show_nat (nat i))"

text \<open>\<open>const stepLetter = (s) => 'CDEFGAB'[s]\<close>, for a step in range.\<close>

definition stepLetter :: "int \<Rightarrow> string" where
  "stepLetter s = [''CDEFGAB'' ! nat s]"

text \<open>
  \<open>const fillStr = (s, num) => Array(Math.abs(num) + 1).join(s)\<close>: joining
  \<open>|num| + 1\<close> empty slots puts \<open>|num|\<close> separators.
\<close>

definition fillStr :: "string \<Rightarrow> int \<Rightarrow> string" where
  "fillStr s num = concat (replicate (nat \<bar>num\<bar>) s)"

definition altAcc :: "int \<Rightarrow> string" where
  "altAcc n = fillStr (if n < 0 then ''b'' else ''#'') n"

text \<open>\<open>const strNum = (n) => n !== null ? n : ''\<close>, as the string it is appended as.\<close>

definition strNum :: "int option \<Rightarrow> string" where
  "strNum n = (case n of Some k \<Rightarrow> show_int k | None \<Rightarrow> [])"

text \<open>
  \<open>function strNote (pitch)\<close> on an array. On the empty array \<open>decode\<close> gives NaN for
  the alteration and \<open>fillStr\<close> throws a RangeError (\<open>Array(NaN)\<close>).
\<close>

definition strNote :: "int list \<Rightarrow> js_fault + jsval" where
  "strNote p =
     (if isInterval (JArr p) then Inr JNull
      else case decode p of
             None \<Rightarrow> Inl RangeError
           | Some d \<Rightarrow> Inr (JStr (stepLetter (step d) @ altAcc (alt d) @ strNum (oct d))))"

definition isAsc :: "decoded \<Rightarrow> bool" where
  "isAsc p = (dir p = Some 1)"

definition isPerf :: "ext \<Rightarrow> decoded \<Rightarrow> bool" where
  "isPerf E p = (ivl_type E (step p + 1) = ''P'')"

text \<open>In arithmetic \<open>null\<close> counts as 0.\<close>

definition num0 :: "int option \<Rightarrow> int" where
  "num0 n = (case n of Some k \<Rightarrow> k | None \<Rightarrow> 0)"

definition calcNum :: "decoded \<Rightarrow> int" where
  "calcNum p =
     (if isAsc p then step p + 1 + 7 * num0 (oct p)
      else (8 - step p) - 7 * (num0 (oct p) + 1))"

definition calcAlt :: "ext \<Rightarrow> decoded \<Rightarrow> int" where
  "calcAlt E p = (if isAsc p then alt p else if isPerf E p then - alt p else - (alt p + 1))"

text \<open>\<open>function strIvl (pitch)\<close> on an array.\<close>

definition strIvl :: "ext \<Rightarrow> int list \<Rightarrow> js_fault + jsval" where
  "strIvl E p =
     (case (if isInterval (JArr p) then decode p else None) of
        None \<Rightarrow> Inr JNull
      | Some d \<Rightarrow>
          (let num = calcNum d
           in Inr (JStr (show_int (num0 (dir d) * num) @ ivl_altToQ E num (calcAlt E d)))))"

text \<open>\<open>const strPitch = (p) => p[2] ? strIvl(p) : strNote(p)\<close>\<close>

definition strPitch :: "ext \<Rightarrow> int list \<Rightarrow> js_fault + jsval" where
  "strPitch E p =
     (if (case p of p0 # p1 # p2 # _ \<Rightarrow> p2 \<noteq> 0 | _ \<Rightarrow> False) then strIvl E p
      else strNote p)"

section \<open>Decorated pitch functions\<close>

text \<open>
  \<open>const notation = (parse, str) => (v) => !isPitch(v) ? parse(v) : str(v)\<close>, in its
  instances: \<open>expectNote = notation(parseNote, id)\<close>, \<open>expectPitch =
  notation(parsePitch, id)\<close>, \<open>toPitchStr = notation(id, strPitch)\<close>.
\<close>

definition expectNote :: "ext \<Rightarrow> cache \<Rightarrow> jsval \<Rightarrow> jsval \<times> cache" where
  "expectNote E c v = (if \<not> isPitch v then parseNote E c v else (v, c))"

definition expectIvl :: "ext \<Rightarrow> cache \<Rightarrow> jsval \<Rightarrow> jsval \<times> cache" where
  "expectIvl E c v = (if \<not> isPitch v then parseIvl E c v else (v, c))"

definition expectPitch :: "ext \<Rightarrow> cache \<Rightarrow> jsval \<Rightarrow> jsval \<times> cache" where
  "expectPitch E c v = (if \<not> isPitch v then parsePitch E c v else (v, c))"

definition toPitchStr :: "ext \<Rightarrow> jsval \<Rightarrow> js_fault + jsval" where
  "toPitchStr E v = (case v of JArr (f # rest) \<Rightarrow> strPitch E (f # rest) | _ \<Rightarrow> Inr v)"

section \<open>Midi pitch numbers\<close>

text \<open>
  \<open>const height = (p) => p[0] * 7 + 12 * p[1]\<close>, on an array; \<open>None\<close> is NaN (a
  component is missing).
\<close>

fun height :: "int list \<Rightarrow> int option" where
  "height (f # oc # _) = Some (f * 7 + 12 * oc)"
| "height _ = None"

text \<open>A numeric result as a value.\<close>

definition js_num :: "real option \<Rightarrow> jsval" where
  "js_num r = (case r of Some x \<Rightarrow> JNum x | None \<Rightarrow> JNaN)"

text \<open>
  The conversion to a number that \<open>>\<close>, \<open><\<close> and unary \<open>+\<close> apply; \<open>None\<close> is NaN.
  An array is converted through its string, the elements joined by commas.
\<close>

fun join_comma :: "string list \<Rightarrow> string" where
  "join_comma [] = []"
| "join_comma [s] = s"
| "join_comma (s # t # rest) = s @ '','' @ join_comma (t # rest)"

fun toNumber :: "ext \<Rightarrow> jsval \<Rightarrow> real option" where
  "toNumber E JUndefined = None"
| "toNumber E JNull = Some 0"
| "toNumber E (JNum x) = Some x"
| "toNumber E JNaN = None"
| "toNumber E (JStr s) = to_number E s"
| "toNumber E (JArr p) = to_number E (join_comma (map show_int p))"

text \<open>\<open>const isMidi = (m) => !isArr(m) && m > 0 && m < 129\<close>\<close>

definition isMidi :: "ext \<Rightarrow> jsval \<Rightarrow> bool" where
  "isMidi E m =
     (\<not> isArr m \<and>
      (case toNumber E m of Some x \<Rightarrow> x > 0 | None \<Rightarrow> False) \<and>
      (case toNumber E m of Some x \<Rightarrow> x < 129 | None \<Rightarrow> False))"

text \<open>
  \<open>const midi = function (val) { const p = expectNote(val); return hasOct(p) ?
  height(p) + 12 : isMidi(val) ? +val : null }\<close>. A value with an octave is an
  array.
\<close>

definition midi :: "ext \<Rightarrow> cache \<Rightarrow> jsval \<Rightarrow> jsval \<times> cache" where
  "midi E c v =
     (case expectNote E c v of
        (p, c1) \<Rightarrow>
          (if hasOct p
             then (case p of
                     JArr a \<Rightarrow> js_num (map_option (\<lambda>h. real_of_int h + 12) (height a))
                   | _ \<Rightarrow> JNaN)
           else if isMidi E v then js_num (toNumber E v)
           else JNull,
           c1))"

text \<open>\<open>const CHROMATIC = [0, null, 1, null, 2, 3, null, 4, null, 5, null, 6]\<close>\<close>

definition CHROMATIC :: "int option list" where
  "CHROMATIC = [Some 0, None, Some 1, None, Some 2, Some 3, None, Some 4, None, Some 5, None, Some 6]"

text \<open>
  \<open>const midiStep = (m) => CHROMATIC[m % 12]\<close>, for an integer. A negative remainder
  reads outside the table: \<open>undefined\<close>, the outer \<open>None\<close>.
\<close>

definition midiStep :: "int \<Rightarrow> int option option" where
  "midiStep m = (let r = js_rem m 12 in if r < 0 then None else Some (CHROMATIC ! nat r))"

text \<open>
  \<open>strNote(pitch(s, a, o))\<close> for a step read from the table. With a step that is
  \<open>null\<close> or \<open>undefined\<close>, \<open>pitch\<close> builds an array of NaN and \<open>strNote\<close> throws a
  RangeError in \<open>fillStr\<close>; on \<open>null\<close> for a pitch, \<open>decode\<close> throws a TypeError.
\<close>

definition strNoteAt :: "int option option \<Rightarrow> int \<Rightarrow> int \<Rightarrow> js_fault + jsval" where
  "strNoteAt st a oc =
     (case st of
        Some (Some s) \<Rightarrow>
          (case pitch s a (Some oc) None of
             None \<Rightarrow> Inl TypeError
           | Some n \<Rightarrow> strNote n)
      | _ \<Rightarrow> Inl RangeError)"

text \<open>
  \<open>const chromatic = (useSharps) => (midi) => \<dots>\<close>, for an integer midi number.
  \<open>c !== null\<close> holds for a number and for \<open>undefined\<close>.
\<close>

definition chromatic :: "bool \<Rightarrow> int \<Rightarrow> js_fault + jsval" where
  "chromatic useSharps m =
     (let c = midiStep m;
          oc = m div 12 - 1
      in if c \<noteq> Some None then strNoteAt c 0 oc
         else if useSharps then strNoteAt (midiStep (m - 1)) 1 oc
         else strNoteAt (midiStep (m + 1)) (- 1) oc)"

definition fromMidi :: "int \<Rightarrow> js_fault + jsval" where
  "fromMidi = chromatic False"

section \<open>Frequency conversions\<close>

text \<open>
  \<open>const wellTempered = (ref) => (pitch) => { const m = midi(pitch); return m ?
  Math.pow(2, (m - 69) / 12) * ref : null }\<close>. \<open>midi\<close> returns a number or \<open>null\<close>.
\<close>

fun freqOf :: "real \<Rightarrow> jsval \<Rightarrow> jsval" where
  "freqOf ref (JNum m) = (if m \<noteq> 0 then JNum (2 powr ((m - 69) / 12) * ref) else JNull)"
| "freqOf ref v = (if truthy v then JNaN else JNull)"

definition wellTempered :: "real \<Rightarrow> ext \<Rightarrow> cache \<Rightarrow> jsval \<Rightarrow> jsval \<times> cache" where
  "wellTempered ref E c v = (case midi E c v of (m, c1) \<Rightarrow> (freqOf ref m, c1))"

definition toFreq :: "ext \<Rightarrow> cache \<Rightarrow> jsval \<Rightarrow> jsval \<times> cache" where
  "toFreq = wellTempered 440"

section \<open>Pitch distances\<close>

text \<open>
  \<open>function trBy (i, p)\<close>. \<open>transpose\<close> passes an interval-shaped array for \<open>i\<close> and,
  for \<open>p\<close>, what \<open>expectPitch\<close> returned: an array or \<open>null\<close>. Reading \<open>p[0]\<close> of
  \<open>null\<close> throws; a sum with a missing component is NaN, which an array of integers
  cannot hold.
\<close>

fun trBy :: "jsval \<Rightarrow> jsval \<Rightarrow> js_fault + jsval" where
  "trBy i JNull = Inl TypeError"
| "trBy i JUndefined = Inl TypeError"
| "trBy (JArr (i0 # _)) (JArr [p0]) = Inr (JArr [i0 + p0])"
| "trBy (JArr (i0 # i1 # _)) (JArr [p0, p1]) = Inr (JArr [i0 + p0, i1 + p1])"
| "trBy (JArr (i0 # i1 # _)) (JArr (p0 # p1 # p2 # _)) =
     (let f = i0 + p0;
          oc = i1 + p1;
          d = (if 7 * f + 12 * oc < 0 then - 1 else 1)
      in Inr (JArr [f, oc, d]))"
| "trBy i p = Inl NotANumber"

text \<open>
  \<open>function transpose (a, b)\<close>, named \<open>transpose_pitch\<close> here, where
  \<open>transpose\<close> is a function on lists of lists; the call with one argument is the partial application.
\<close>

definition transpose_pitch :: "ext \<Rightarrow> cache \<Rightarrow> jsval \<Rightarrow> jsval \<Rightarrow> (js_fault + jsval) \<times> cache" where
  "transpose_pitch E c a b =
     (case expectPitch E c a of
        (pa, c1) \<Rightarrow>
          (case expectPitch E c1 b of
             (pb, c2) \<Rightarrow>
               (let r = (if isInterval pa then trBy pa pb
                         else if isInterval pb then trBy pb pa
                         else Inr JNull)
                in (case r of Inl e \<Rightarrow> Inl e | Inr v \<Rightarrow> toPitchStr E v, c2))))"

section \<open>Forcing a direction on a list\<close>

text \<open>
  Modelled from the spec: the note objects of \<open>lib/note/note.js\<close>, which
  \<open>lib/list/direction.js\<close> requires and which is not among the sources, as is
  \<open>lib/list/list.js\<close>. A parsable note is its letter step, alteration and octave;
  \<open>note(curr, null, o)\<close> is the note \<open>curr\<close> set to octave \<open>o\<close>, here the record
  update of the octave; a list given as a sequence stays as it is. The list holds the
  notes themselves instead of their names.
\<close>

record note_obj =
  letter :: int
  acc :: int
  octave :: int

text \<open>
  Modelled from the spec: the property \<open>midi\<close> of a note object (\<open>lib/note/note.js\<close>
  is not among the sources) is the height of its encoded pitch plus 12, with
  \<open>height = fifths * 7 + 12 * octave\<close>, so that C4 is at 60.
\<close>

definition note_midi :: "note_obj \<Rightarrow> int" where
  "note_midi n =
     encPC (letter n) (acc n) * 7 + 12 * encOct (letter n) (acc n) (octave n) + 12"

definition GT :: "int \<Rightarrow> int \<Rightarrow> bool" where
  "GT a b = (a > b)"

definition LT :: "int \<Rightarrow> int \<Rightarrow> bool" where
  "LT a b = (a < b)"

text \<open>
  The loop of \<open>direction\<close> from index 1 on: \<open>prev\<close> is \<open>result[i - 1]\<close>, the element
  pushed last.
\<close>

fun direction_loop ::
  "(int \<Rightarrow> int \<Rightarrow> bool) \<Rightarrow> int \<Rightarrow> note_obj \<Rightarrow> note_obj list \<Rightarrow> note_obj list" where
  "direction_loop cmp off prev [] = []"
| "direction_loop cmp off prev (cur # rest) =
     (let kept =
            (if cmp (note_midi prev) (note_midi cur)
             then (let oc = (note_midi prev - note_midi cur) div 12 + off
                   in cur \<lparr> octave := octave cur + oc \<rparr>)
             else cur)
      in kept # direction_loop cmp off kept rest)"

text \<open>
  \<open>function direction (list, dir)\<close>: \<open>dir = dir || 1\<close>, then the check that throws.
\<close>

definition direction :: "note_obj list \<Rightarrow> jsval \<Rightarrow> js_fault + note_obj list" where
  "direction list dir0 =
     (let d = (if truthy dir0 then dir0 else JNum 1)
      in if d \<noteq> JNum 1 \<and> d \<noteq> JNum (- 1) then Inl (DirectionNotValid d)
         else (let cmp = (if d = JNum 1 then GT else LT);
                   off = (if d = JNum 1 then 1 else 0)
               in Inr (case list of
                         [] \<Rightarrow> []
                       | first # rest \<Rightarrow> first # direction_loop cmp off first rest)))"

section \<open>A stand-in for the grammars\<close>

text \<open>
  The external grammars on the literals of the examples: \<open>C4\<close> and \<open>A4\<close> are notes,
  \<open>M3\<close> is the ascending major third and \<open>A4\<close> also reads as the augmented fourth;
  the interval qualities as \<open>interval-notation\<close> names them; no string is a number.
\<close>

definition sampleType :: "int \<Rightarrow> string" where
  "sampleType n = (let r = js_rem (n - 1) 7 in if r < 0 then [] else [''PMMPPMM'' ! nat r])"

definition sampleAltToQ :: "int \<Rightarrow> int \<Rightarrow> string" where
  "sampleAltToQ n a =
     (let t = sampleType n
      in if a = 0 then (if t = ''M'' then ''M'' else ''P'')
         else if a = - 1 \<and> t = ''M'' then ''m''
         else if a > 0 then fillStr ''A'' a
         else fillStr ''d'' (if t = ''P'' then a else a + 1))"

definition sampleExt :: ext where
  "sampleExt =
     \<lparr> note_parse = (\<lambda>s. if s = ''C4'' then Some \<lparr> n_step = 0, n_alt = 0, n_oct = Some 4 \<rparr>
                          else if s = ''A4'' then Some \<lparr> n_step = 5, n_alt = 0, n_oct = Some 4 \<rparr>
                          else None),
       ivl_parse = (\<lambda>s. if s = ''M3'' then Some \<lparr> i_simple = 3, i_alt = 0, i_oct = 0, i_dir = 1 \<rparr>
                         else if s = ''A4'' then Some \<lparr> i_simple = 4, i_alt = 1, i_oct = 0, i_dir = 1 \<rparr>
                         else None),
       ivl_type = sampleType,
       ivl_altToQ = sampleAltToQ,
       to_number = (\<lambda>s. None) \<rparr>"

section \<open>The chromatic scale as the specification words it\<close>



section \<open>Auxiliary notions for the statements\<close>

text \<open>
  The integers on which the arithmetic of the source is exact: a sum, difference or
  product whose value is of magnitude at most \<open>2^53\<close> is computed without rounding, and
  for \<open>x\<close> in this range \<open>Math.floor(x / 7)\<close> is the floored quotient (the quotient is
  below \<open>2^51\<close>, where doubles are less than \<open>1/7\<close> apart).
\<close>

definition exactInt :: "int \<Rightarrow> bool" where
  "exactInt x = (\<bar>x\<bar> \<le> 2 ^ 53)"

text \<open>
  What a string parses to when the cache has no entry for it: the note grammar first,
  then the interval grammar.
\<close>

definition literal :: "ext \<Rightarrow> string \<Rightarrow> int list option" where
  "literal E s =
     (case (case note_parse E s of
              Some n \<Rightarrow> pitch (n_step n) (n_alt n) (n_oct n) None
            | None \<Rightarrow> None) of
        Some p \<Rightarrow> Some p
      | None \<Rightarrow>
          (case ivl_parse E s of
             Some i \<Rightarrow> pitch (i_simple i - 1) (i_alt i) (Some (i_oct i)) (Some (i_dir i))
           | None \<Rightarrow> None))"




section \<open>The line-of-fifths arithmetic\<close>

lemma unaltered_mod: "unaltered f = (f + 1) mod 7"
proof (cases "0 \<le> f + 1")
  case True
  then show ?thesis
    by (cases "f + 1 = 0") (simp_all add: unaltered_def js_rem_def Let_def sgn_if)
next
  case False
  then have neg: "f + 1 < 0" by simp
  have "(f + 1) mod 7 = (if (- (f + 1)) mod 7 = 0 then 0 else 7 - (- (f + 1)) mod 7)"
    by presburger
  with neg show ?thesis
    by (auto simp add: unaltered_def js_rem_def Let_def sgn_if abs_if)
qed

lemma unaltered_range: "0 \<le> unaltered f \<and> unaltered f \<le> 6"
  unfolding unaltered_mod by presburger

lemma steps_cases:
  assumes "0 \<le> r" "r \<le> (6::int)"
  shows "r = 0 \<or> r = 1 \<or> r = 2 \<or> r = 3 \<or> r = 4 \<or> r = 5 \<or> r = 6"
  using assms by presburger

lemma decodeStep_range: "0 \<le> decodeStep f \<and> decodeStep f \<le> 6"
proof -
  have r: "0 \<le> unaltered f" "unaltered f \<le> 6"
    using unaltered_range by simp_all
  from steps_cases [OF r] show ?thesis
    unfolding decodeStep_def STEPS_def by (elim disjE) simp_all
qed

lemma decodeStep_encPC:
  assumes "0 \<le> s" "s \<le> 6"
  shows "decodeStep (encPC s a) = s"
  using steps_cases [OF assms]
  by (elim disjE) (simp_all add: decodeStep_def unaltered_mod encPC_def FIFTHS_def STEPS_def)

lemma decodeAlt_encPC:
  assumes "0 \<le> s" "s \<le> 6"
  shows "decodeAlt (encPC s a) = a"
  using steps_cases [OF assms]
  by (elim disjE) (simp_all add: decodeAlt_def encPC_def FIFTHS_def)

lemma encPC_decode: "encPC (decodeStep f) (decodeAlt f) = f"
proof -
  have r: "0 \<le> unaltered f" "unaltered f \<le> 6"
    using unaltered_range by simp_all
  have "FIFTHS ! nat (STEPS ! nat (unaltered f)) = unaltered f - 1"
    using steps_cases [OF r] unfolding FIFTHS_def STEPS_def by (elim disjE) simp_all
  then show ?thesis
    unfolding encPC_def decodeStep_def decodeAlt_def unaltered_mod by presburger
qed


lemma decodeStep_encode [simp]: "0 \<le> s \<Longrightarrow> s \<le> 6 \<Longrightarrow> decodeStep (encPC s a) = s"
  by (rule decodeStep_encPC)

lemma decodeAlt_encode [simp]: "0 \<le> s \<Longrightarrow> s \<le> 6 \<Longrightarrow> decodeAlt (encPC s a) = a"
  by (rule decodeAlt_encPC)

lemma decode_pitch_class:
  assumes "0 \<le> s" "s \<le> 6"
  shows "Option.bind (pitch s a None None) decode =
           Some \<lparr> step = s, alt = a, oct = None, dir = None \<rparr>"
  using assms by (simp add: pitch_def Let_def)

lemma decode_pitch_note:
  assumes "0 \<le> s" "s \<le> 6"
  shows "Option.bind (pitch s a (Some k) None) decode =
           Some \<lparr> step = s, alt = a, oct = Some k, dir = None \<rparr>"
  using assms by (simp add: pitch_def Let_def encOct_def)

lemma decode_pitch_ascending:
  assumes "0 \<le> s" "s \<le> 6"
  shows "Option.bind (pitch s a (Some k) (Some 1)) decode =
           Some \<lparr> step = s, alt = a, oct = Some k, dir = Some 1 \<rparr>"
  using assms by (simp add: pitch_def Let_def encOct_def)

lemma pitch_of_decoded:
  "pitch (decodeStep f) (decodeAlt f) k d =
     (case k of
        None \<Rightarrow> Some [f]
      | Some j \<Rightarrow>
          (case d of
             None \<Rightarrow> Some [f, encOct (decodeStep f) (decodeAlt f) j]
           | Some dr \<Rightarrow>
               (let sg = (if dr < 0 then - 1 else 1)
                in Some [sg * f, sg * encOct (decodeStep f) (decodeAlt f) j, sg])))"
  using decodeStep_range [of f]
  by (simp add: pitch_def encPC_decode Let_def split: option.splits)

lemma encode_decoded_pitch_class:
  "Option.bind (decode [f]) (\<lambda>d. pitch (step d) (alt d) (oct d) (dir d)) = Some [f]"
  by (simp add: Let_def pitch_of_decoded)

lemma encode_decoded_note:
  "Option.bind (decode [f, e]) (\<lambda>d. pitch (step d) (alt d) (oct d) (dir d)) = Some [f, e]"
  by (simp add: Let_def pitch_of_decoded encOct_def)

lemma encode_decoded_ascending:
  "Option.bind (decode [f, e, 1]) (\<lambda>d. pitch (step d) (alt d) (oct d) (dir d)) = Some [f, e, 1]"
  by (simp add: Let_def pitch_of_decoded encOct_def)

section \<open>Encoding and decoding\<close>

text \<open>
  Claim C1, as stated, at a descending interval: the descending second on D
  (\<open>pitch(1, 0, 0, -1)\<close>, the array \<open>[-2, 1, -1]\<close>) decodes to step 6, alteration -1,
  octave -1, not to the step, alteration and octave it was built from; and the
  descending interval \<open>[2, -1, -1]\<close> is re-encoded from its decoding as \<open>[-2, 1, -1]\<close>.
\<close>

theorem pitch_decode_descending_counterexample:
  "Option.bind (pitch 1 0 (Some 0) (Some (- 1))) decode
     \<noteq> Some \<lparr> step = 1, alt = 0, oct = Some 0, dir = Some (- 1) \<rparr>
   \<and> Option.bind (decode [2, - 1, - 1]) (\<lambda>d. pitch (step d) (alt d) (oct d) (dir d))
     \<noteq> Some [2, - 1, - 1]"
  by (simp add: pitch_def Let_def encPC_def encOct_def FIFTHS_def FIFTH_OCTS_def
      fifthsSpan_def decodeStep_def decodeAlt_def unaltered_mod STEPS_def)

lemma table_bounds:
  assumes "0 \<le> s" "s \<le> 6"
  shows "- 1 \<le> FIFTHS ! nat s \<and> FIFTHS ! nat s \<le> 5 \<and>
         - 1 \<le> FIFTH_OCTS ! nat s \<and> FIFTH_OCTS ! nat s \<le> 2"
  using steps_cases [OF assms]
  by (elim disjE) (simp_all add: FIFTHS_def FIFTH_OCTS_def fifthsSpan_def)

lemma decodeAlt_bounds: "7 * decodeAlt f \<le> f + 1 \<and> f + 1 < 7 * decodeAlt f + 7"
proof -
  have "f + 1 = 7 * ((f + 1) div 7) + (f + 1) mod 7"
    by simp
  moreover have "0 \<le> (f + 1) mod 7" "(f + 1) mod 7 < 7"
    by simp_all
  ultimately show ?thesis
    unfolding decodeAlt_def by linarith
qed

lemma encode_exact:
  assumes "0 \<le> s" "s \<le> 6" "\<bar>a\<bar> \<le> 2 ^ 50" "\<bar>k\<bar> \<le> 2 ^ 50"
  shows "exactInt (7 * a) \<and> exactInt (encPC s a) \<and> exactInt (encPC s a + 1) \<and>
         exactInt (4 * a) \<and> exactInt (k - FIFTH_OCTS ! nat s) \<and> exactInt (encOct s a k) \<and>
         exactInt (encOct s a k + 4 * a)"
  using table_bounds [OF assms(1,2)] assms(3,4)
  unfolding exactInt_def encPC_def encOct_def
  by (auto simp add: abs_le_iff)

lemma decode_exact:
  assumes "\<bar>f\<bar> \<le> 2 ^ 50" "\<bar>e\<bar> \<le> 2 ^ 50"
  shows "exactInt (f + 1) \<and> exactInt (7 * decodeAlt f) \<and> exactInt (4 * decodeAlt f) \<and>
         exactInt (e + 4 * decodeAlt f) \<and>
         exactInt (e + 4 * decodeAlt f + FIFTH_OCTS ! nat (decodeStep f))"
  using decodeStep_range [of f] table_bounds [of "decodeStep f"] decodeAlt_bounds [of f] assms
  unfolding exactInt_def
  by (auto simp add: abs_le_iff)

text \<open>
  Claim C1, amended: for every step in 0..6 and all integers \<open>a\<close> and \<open>k\<close> of magnitude at
  most \<open>2^50\<close>, every product, sum and difference the encoding and the decoding compute
  is of magnitude at most \<open>2^53\<close>, where the arithmetic of the source is exact, and
  decoding the encoded pitch class, the encoded note and the encoded ascending interval
  (direction +1) returns exactly the step, alteration, octave and direction that were
  encoded; and every pitch class \<open>[f]\<close>, note \<open>[f, e]\<close> and ascending interval
  \<open>[f, e, 1]\<close> of components of magnitude at most \<open>2^50\<close> is re-encoded from its
  decoding as itself, again within the exact range. Descending intervals are left out:
  they are stored with all components negated and decode to the inverted interval.
\<close>

theorem pitch_decode_roundtrip:
  "(0 \<le> s \<and> s \<le> 6 \<and> \<bar>a\<bar> \<le> 2 ^ 50 \<and> \<bar>k\<bar> \<le> 2 ^ 50 \<longrightarrow>
      exactInt (7 * a) \<and> exactInt (encPC s a) \<and> exactInt (encPC s a + 1) \<and>
      exactInt (4 * a) \<and> exactInt (k - FIFTH_OCTS ! nat s) \<and> exactInt (encOct s a k) \<and>
      exactInt (encOct s a k + 4 * a) \<and>
      Option.bind (pitch s a None None) decode =
        Some \<lparr> step = s, alt = a, oct = None, dir = None \<rparr> \<and>
      Option.bind (pitch s a (Some k) None) decode =
        Some \<lparr> step = s, alt = a, oct = Some k, dir = None \<rparr> \<and>
      Option.bind (pitch s a (Some k) (Some 1)) decode =
        Some \<lparr> step = s, alt = a, oct = Some k, dir = Some 1 \<rparr>) \<and>
   (\<bar>f\<bar> \<le> 2 ^ 50 \<and> \<bar>e\<bar> \<le> 2 ^ 50 \<longrightarrow>
      exactInt (f + 1) \<and> exactInt (7 * decodeAlt f) \<and> exactInt (4 * decodeAlt f) \<and>
      exactInt (e + 4 * decodeAlt f) \<and>
      exactInt (e + 4 * decodeAlt f + FIFTH_OCTS ! nat (decodeStep f)) \<and>
      Option.bind (decode [f]) (\<lambda>d. pitch (step d) (alt d) (oct d) (dir d)) = Some [f] \<and>
      Option.bind (decode [f, e]) (\<lambda>d. pitch (step d) (alt d) (oct d) (dir d)) = Some [f, e] \<and>
      Option.bind (decode [f, e, 1]) (\<lambda>d. pitch (step d) (alt d) (oct d) (dir d))
        = Some [f, e, 1])"
  using decode_pitch_class [of s a] decode_pitch_note [of s a k]
    decode_pitch_ascending [of s a k] encode_decoded_pitch_class [of f]
    encode_decoded_note [of f e] encode_decoded_ascending [of f e]
    encode_exact [of s a k] decode_exact [of f e]
  by blast

theorem pitch_decode_roundtrip_witness:
  "(0::int) \<le> 3 \<and> (3::int) \<le> 6 \<and> \<bar>2 :: int\<bar> \<le> 2 ^ 50 \<and> \<bar>- 1 :: int\<bar> \<le> 2 ^ 50 \<and>
   \<bar>13 :: int\<bar> \<le> 2 ^ 50 \<and> \<bar>- 8 :: int\<bar> \<le> 2 ^ 50 \<and>
   exactInt (encPC 3 2) \<and> exactInt (encOct 3 2 (- 1)) \<and>
   Option.bind (pitch 3 2 None None) decode =
     Some \<lparr> step = 3, alt = 2, oct = None, dir = None \<rparr> \<and>
   Option.bind (pitch 3 2 (Some (- 1)) None) decode =
     Some \<lparr> step = 3, alt = 2, oct = Some (- 1), dir = None \<rparr> \<and>
   Option.bind (pitch 3 2 (Some (- 1)) (Some 1)) decode =
     Some \<lparr> step = 3, alt = 2, oct = Some (- 1), dir = Some 1 \<rparr> \<and>
   Option.bind (decode [13, - 8, 1]) (\<lambda>d. pitch (step d) (alt d) (oct d) (dir d))
     = Some [13, - 8, 1]"
  using pitch_decode_roundtrip [of 3 2 "- 1" 13 "- 8"] by simp

text \<open>
  Claim C9: for every integer fifths coordinate the decoded step lies in 0..6, so the
  decoding of any array of integers, whichever operation produced it, has its step in
  that range.
\<close>

theorem decoded_step_in_range:
  "0 \<le> decodeStep f \<and> decodeStep f \<le> 6 \<and>
   (\<forall>d. decode p = Some d \<longrightarrow> 0 \<le> step d \<and> step d \<le> 6)"
proof -
  have "0 \<le> step d \<and> step d \<le> 6" if "decode p = Some d" for d
  proof (cases p)
    case Nil
    with that show ?thesis by simp
  next
    case (Cons g rest)
    with that have "step d = decodeStep g"
      by (auto simp add: Let_def)
    then show ?thesis
      using decodeStep_range [of g] by simp
  qed
  then show ?thesis
    using decodeStep_range [of f] by blast
qed

theorem decoded_step_in_range_witness:
  "decode [- 2, 1, - 1] = Some \<lparr> step = 6, alt = - 1, oct = Some (- 1), dir = Some (- 1) \<rparr> \<and>
   0 \<le> step \<lparr> step = 6, alt = - 1, oct = Some (- 1), dir = Some (- 1) \<rparr> \<and>
   step \<lparr> step = 6, alt = - 1, oct = Some (- 1), dir = Some (- 1) \<rparr> \<le> 6 \<and>
   0 \<le> decodeStep (- 30) \<and> decodeStep (- 30) \<le> 6"
proof -
  have d: "decode [- 2, 1, - 1] =
             Some \<lparr> step = 6, alt = - 1, oct = Some (- 1), dir = Some (- 1) \<rparr>"
    by (simp add: Let_def decodeStep_def decodeAlt_def unaltered_mod STEPS_def
        FIFTH_OCTS_def FIFTHS_def fifthsSpan_def)
  from decoded_step_in_range [of "- 30" "[- 2, 1, - 1]"] d show ?thesis
    by simp
qed

section \<open>The chromatic scale\<close>








section \<open>Midi numbers and frequencies\<close>

lemma parseNote_not_string:
  "parseNote E c JUndefined = (JNull, c)" "parseNote E c JNull = (JNull, c)"
  "parseNote E c (JNum x) = (JNull, c)" "parseNote E c JNaN = (JNull, c)"
  "parseNote E c (JArr p) = (JNull, c)"
  by (simp_all add: parseNote_def cached_def)

lemma midi_with_octave:
  "midi E c (JArr (f # e # r)) = (JNum (real_of_int (f * 7 + 12 * e) + 12), c)"
  by (simp add: midi_def expectNote_def js_num_def)

lemma midi_number:
  "midi E c (JNum x) = (if 0 < x \<and> x < 129 then JNum x else JNull, c)"
  by (simp add: midi_def expectNote_def parseNote_not_string isMidi_def js_num_def)

lemma midi_no_value:
  "midi E c JNull = (JNull, c)" "midi E c JUndefined = (JNull, c)" "midi E c JNaN = (JNull, c)"
  "midi E c (JArr []) = (JNull, c)" "midi E c (JArr [f]) = (JNull, c)"
  by (simp_all add: midi_def expectNote_def parseNote_not_string isMidi_def)

lemma midi_cached_string:
  "c s = Some (f # e # r) \<Longrightarrow>
     midi E c (JStr s) = (JNum (real_of_int (f * 7 + 12 * e) + 12), c)"
  by (simp add: midi_def expectNote_def parseNote_def cached_def js_num_def)

lemma midi_parsed_string:
  assumes "c s = None" "note_parse E s = Some n" "0 \<le> n_step n" "n_step n \<le> 6"
    "n_oct n = Some k"
  shows "fst (midi E c (JStr s)) =
           JNum (real_of_int (encPC (n_step n) (n_alt n) * 7
                              + 12 * encOct (n_step n) (n_alt n) k) + 12)"
  using assms
  by (simp add: midi_def expectNote_def parseNote_def cached_def pitch_def Let_def js_num_def)

lemma midi_string_without_octave:
  assumes "\<not> hasOct (fst (expectNote E c (JStr s)))"
  shows "fst (midi E c (JStr s)) =
           (case to_number E s of
              Some x \<Rightarrow> if 0 < x \<and> x < 129 then JNum x else JNull
            | None \<Rightarrow> JNull)"
  using assms
  by (cases "expectNote E c (JStr s)")
    (simp add: midi_def isMidi_def js_num_def split: option.splits)

lemma expectNote_unparsed:
  "c s = None \<Longrightarrow> note_parse E s = None \<Longrightarrow> expectNote E c (JStr s) = (JNull, c)"
  by (simp add: expectNote_def parseNote_def cached_def)

lemma parseIvl_A4:
  "parseIvl sampleExt Map.empty (JStr ''A4'') = (JArr [6, - 3, 1], [''A4'' \<mapsto> [6, - 3, 1]])"
  by (simp add: parseIvl_def cached_def sampleExt_def pitch_def Let_def encPC_def encOct_def
      FIFTHS_def FIFTH_OCTS_def fifthsSpan_def)

text \<open>
  Claim C6 at the bare number 0.5: it is outside \<open>[1,128]\<close> and is no note, so the
  claim, like the comment of the source on midi numbers (between 1 and 128), gives
  \<open>null\<close>; \<open>midi\<close> returns 0.5. And at the note \<open>A4\<close>, which is 69 from a cache
  without it: once the interval parser has read the same string (the augmented
  fourth), the one cache of both parsers hands \<open>midi\<close> the interval, and the result is
  18.
\<close>

theorem midi_outside_range:
  "fst (midi sampleExt Map.empty (JNum (1 / 2))) = JNum (1 / 2) \<and>
   fst (midi sampleExt Map.empty (JStr ''A4'')) = JNum 69 \<and>
   fst (midi sampleExt (snd (parseIvl sampleExt Map.empty (JStr ''A4''))) (JStr ''A4''))
     = JNum 18"
proof -
  have n: "note_parse sampleExt ''A4'' = Some \<lparr> n_step = 5, n_alt = 0, n_oct = Some 4 \<rparr>"
    by (simp add: sampleExt_def)
  have "fst (midi sampleExt Map.empty (JStr ''A4'')) = JNum 69"
    using midi_parsed_string [of Map.empty "''A4''" sampleExt
        "\<lparr> n_step = 5, n_alt = 0, n_oct = Some 4 \<rparr>" 4] n
    by (simp add: encPC_def encOct_def FIFTHS_def FIFTH_OCTS_def fifthsSpan_def)
  moreover have "fst (midi sampleExt [''A4'' \<mapsto> [6, - 3, 1]] (JStr ''A4'')) = JNum 18"
    by (simp add: midi_cached_string)
  ultimately show ?thesis
    by (simp add: midi_number parseIvl_A4)
qed

text \<open>
  Claim C10: every number \<open>x\<close> with \<open>0 < x < 129\<close> is returned by \<open>midi\<close> as it is,
  whole or not (60.5 and 128.5 among them), and so is the number of a string that
  does not give a pitch with an octave and converts to such an \<open>x\<close>.
\<close>

theorem midi_accepts_fractions:
  "(0 < x \<and> x < 129 \<longrightarrow> fst (midi E c (JNum x)) = JNum x) \<and>
   fst (midi E c (JNum (121 / 2))) = JNum (121 / 2) \<and>
   fst (midi E c (JNum (257 / 2))) = JNum (257 / 2) \<and>
   (\<not> hasOct (fst (expectNote E c (JStr s))) \<and> to_number E s = Some y \<and> 0 < y \<and> y < 129 \<longrightarrow>
      fst (midi E c (JStr s)) = JNum y)"
  using midi_string_without_octave [of E c s]
  by (simp add: midi_number)

theorem midi_accepts_fractions_witness:
  "fst (midi sampleExt Map.empty (JNum (1 / 4))) = JNum (1 / 4) \<and>
   fst (midi (sampleExt \<lparr> to_number := (\<lambda>s. if s = ''60.5'' then Some (121 / 2) else None) \<rparr>)
          Map.empty (JStr ''60.5'')) = JNum (121 / 2)"
proof -
  let ?E = "sampleExt \<lparr> to_number := (\<lambda>s. if s = ''60.5'' then Some (121 / 2) else None) \<rparr>"
  have "\<not> hasOct (fst (expectNote ?E Map.empty (JStr ''60.5'')))"
    by (simp add: expectNote_unparsed sampleExt_def)
  with midi_accepts_fractions [of "1 / 4" sampleExt Map.empty]
    midi_accepts_fractions [of 1 ?E Map.empty "''60.5''" "121 / 2"]
  show ?thesis by simp
qed

lemma wellTempered_frequency:
  "fst (midi E c v) = JNum m \<Longrightarrow> m \<noteq> 0 \<Longrightarrow>
     fst (wellTempered ref E c v) = JNum (2 powr ((m - 69) / 12) * ref)"
  by (cases "midi E c v") (simp add: wellTempered_def)

lemma wellTempered_null:
  "fst (midi E c v) = JNull \<Longrightarrow> fst (wellTempered ref E c v) = JNull"
  by (cases "midi E c v") (simp add: wellTempered_def)

lemma toFreq_A4:
  "c ''A4'' = None \<Longrightarrow> note_parse E ''A4'' = Some \<lparr> n_step = 5, n_alt = 0, n_oct = Some 4 \<rparr> \<Longrightarrow>
     fst (toFreq E c (JStr ''A4'')) = JNum 440"
  using midi_parsed_string [of c "''A4''" E "\<lparr> n_step = 5, n_alt = 0, n_oct = Some 4 \<rparr>" 4]
    wellTempered_frequency [of E c "JStr ''A4''" 69 440]
  by (simp add: toFreq_def encPC_def encOct_def FIFTHS_def FIFTH_OCTS_def fifthsSpan_def)

text \<open>
  Claim C7 at the note C-1, the array \<open>[0, -1]\<close>: its midi number is 0, a number and
  not \<open>null\<close>, and the frequency calculator returns \<open>null\<close> for it, while for C-2, of
  midi number -12, it returns a frequency.
\<close>

theorem wellTempered_midi_zero:
  "fst (midi E c (JArr [0, - 1])) = JNum 0 \<and>
   fst (wellTempered 440 E c (JArr [0, - 1])) = JNull \<and>
   fst (midi E c (JArr [0, - 2])) = JNum (- 12) \<and>
   fst (wellTempered 440 E c (JArr [0, - 2])) = JNum (2 powr ((- 12 - 69) / 12) * 440)"
  by (simp add: wellTempered_def midi_with_octave)

section \<open>Transposition\<close>

lemma expectPitch_string:
  "expectPitch E c (JStr s) =
     (case c s of
        Some p \<Rightarrow> (JArr p, c)
      | None \<Rightarrow> (case literal E s of Some p \<Rightarrow> (JArr p, c(s \<mapsto> p)) | None \<Rightarrow> (JNull, c)))"
  by (simp add: expectPitch_def parsePitch_def parseNote_def parseIvl_def cached_def literal_def
      split: option.splits)

lemma expectPitch_other:
  "expectPitch E c JUndefined = (JNull, c)" "expectPitch E c JNull = (JNull, c)"
  "expectPitch E c (JNum x) = (JNull, c)" "expectPitch E c JNaN = (JNull, c)"
  "expectPitch E c (JArr []) = (JNull, c)" "expectPitch E c (JArr (f # r)) = (JArr (f # r), c)"
  by (simp_all add: expectPitch_def parsePitch_def parseNote_def parseIvl_def cached_def)

lemma expectPitch_not_string:
  assumes "\<And>s. v \<noteq> JStr s"
  shows "\<exists>p. \<forall>c. expectPitch E c v = (p, c)"
proof (cases v)
  case (JArr a)
  then show ?thesis
    by (cases a) (auto simp add: expectPitch_other)
qed (use assms in \<open>auto simp add: expectPitch_other\<close>)

lemma expectPitch_twice:
  assumes "a \<noteq> b"
    and "expectPitch E c a = (pa, c1)" and "expectPitch E c1 b = (pb, c2)"
  shows "\<exists>c1'. expectPitch E c b = (pb, c1') \<and> expectPitch E c1' a = (pa, c2)"
proof (cases "\<exists>s. a = JStr s")
  case False
  then obtain p where p: "\<And>k. expectPitch E k a = (p, k)"
    using expectPitch_not_string [of a E] by auto
  with assms(2) have "pa = p" "c1 = c" by simp_all
  with assms(3) p show ?thesis by simp
next
  case True
  then obtain s where a: "a = JStr s" by blast
  show ?thesis
  proof (cases "\<exists>t. b = JStr t")
    case False
    then obtain q where q: "\<And>k. expectPitch E k b = (q, k)"
      using expectPitch_not_string [of b E] by auto
    with assms(3) have "pb = q" "c2 = c1" by simp_all
    with assms(2) q show ?thesis by simp
  next
    case True
    then obtain t where b: "b = JStr t" by blast
    with a assms(1) have ne: "s \<noteq> t" by simp
    then have twist: "c(s \<mapsto> x, t \<mapsto> y) = c(t \<mapsto> y, s \<mapsto> x)" for x y
      by (simp add: fun_upd_twist)
    from assms(2,3) ne show ?thesis
      unfolding a b expectPitch_string
      by (auto split: option.splits simp add: twist)
  qed
qed

lemma trBy_intervals:
  assumes "isInterval pa" "isInterval pb"
  shows "trBy pa pb = trBy pb pa"
proof -
  from assms(1) obtain i0 i1 i2 ir where pa: "pa = JArr (i0 # i1 # i2 # ir)"
    by (auto elim: isInterval.elims)
  from assms(2) obtain p0 p1 p2 pr where pb: "pb = JArr (p0 # p1 # p2 # pr)"
    by (auto elim: isInterval.elims)
  show ?thesis
    unfolding pa pb by (simp add: Let_def add.commute)
qed

lemma transpose_unfold:
  assumes "expectPitch E c a = (pa, c1)" "expectPitch E c1 b = (pb, c2)"
  shows "transpose_pitch E c a b =
           (case (if isInterval pa then trBy pa pb
                  else if isInterval pb then trBy pb pa
                  else Inr JNull) of
              Inl e \<Rightarrow> Inl e
            | Inr v \<Rightarrow> toPitchStr E v, c2)"
  using assms by (simp add: transpose_pitch_def Let_def)

lemma transpose_commute: "transpose_pitch E c a b = transpose_pitch E c b a"
proof (cases "a = b")
  case True
  then show ?thesis by simp
next
  case False
  obtain pa c1 where 1: "expectPitch E c a = (pa, c1)"
    by (cases "expectPitch E c a")
  obtain pb c2 where 2: "expectPitch E c1 b = (pb, c2)"
    by (cases "expectPitch E c1 b")
  from expectPitch_twice [OF False 1 2]
  obtain c1' where 3: "expectPitch E c b = (pb, c1')" and 4: "expectPitch E c1' a = (pa, c2)"
    by blast
  show ?thesis
    unfolding transpose_unfold [OF 1 2] transpose_unfold [OF 3 4]
    using trBy_intervals [of pa pb] by simp
qed

lemma show_int_4: "show_int 4 = ''4''"
  by (simp add: show_int_def show_nat.simps)

lemma show_int_5: "show_int 5 = ''5''"
  by (simp add: show_int_def show_nat.simps)

lemma strNote_E4: "strNote [4, 2] = Inr (JStr ''E4'')"
  by (simp add: strNote_def Let_def decodeStep_def decodeAlt_def unaltered_mod STEPS_def
      FIFTH_OCTS_def FIFTHS_def fifthsSpan_def stepLetter_def altAcc_def fillStr_def
      strNum_def show_int_4)

lemma transpose_C4_M3:
  assumes "c ''C4'' = None" "c ''M3'' = None"
    "note_parse E ''C4'' = Some \<lparr> n_step = 0, n_alt = 0, n_oct = Some 4 \<rparr>"
    "note_parse E ''M3'' = None"
    "ivl_parse E ''M3'' = Some \<lparr> i_simple = 3, i_alt = 0, i_oct = 0, i_dir = 1 \<rparr>"
  shows "fst (transpose_pitch E c (JStr ''C4'') (JStr ''M3'')) = Inr (JStr ''E4'')"
proof -
  have l1: "literal E ''C4'' = Some [0, 4]"
    using assms(3)
    by (simp add: literal_def pitch_def encPC_def encOct_def FIFTHS_def FIFTH_OCTS_def
        fifthsSpan_def)
  have l2: "literal E ''M3'' = Some [4, - 2, 1]"
    using assms(4,5)
    by (simp add: literal_def pitch_def encPC_def encOct_def FIFTHS_def FIFTH_OCTS_def
        fifthsSpan_def)
  have 1: "expectPitch E c (JStr ''C4'') = (JArr [0, 4], c(''C4'' \<mapsto> [0, 4]))"
    using assms(1) l1 by (simp add: expectPitch_string)
  have 2: "expectPitch E (c(''C4'' \<mapsto> [0, 4])) (JStr ''M3'')
             = (JArr [4, - 2, 1], c(''C4'' \<mapsto> [0, 4], ''M3'' \<mapsto> [4, - 2, 1]))"
    using assms(2) l2 by (simp add: expectPitch_string)
  show ?thesis
    unfolding transpose_unfold [OF 1 2]
    by (simp add: toPitchStr_def strPitch_def strNote_E4)
qed

text \<open>
  Claim C2: \<open>transpose\<close> gives the same result (and leaves the same cache) whichever
  argument comes first, for every pair of operands, in particular for every pair of
  which exactly one is interval-shaped; with \<open>C4\<close> a note and \<open>M3\<close> the ascending major
  third, both \<open>transpose("C4", "M3")\<close> and \<open>transpose("M3", "C4")\<close> are \<open>E4\<close>.
\<close>

theorem transpose_symmetric:
  "transpose_pitch E c a b = transpose_pitch E c b a \<and>
   (c ''C4'' = None \<and> c ''M3'' = None \<and>
    note_parse E ''C4'' = Some \<lparr> n_step = 0, n_alt = 0, n_oct = Some 4 \<rparr> \<and>
    note_parse E ''M3'' = None \<and>
    ivl_parse E ''M3'' = Some \<lparr> i_simple = 3, i_alt = 0, i_oct = 0, i_dir = 1 \<rparr> \<longrightarrow>
      fst (transpose_pitch E c (JStr ''C4'') (JStr ''M3'')) = Inr (JStr ''E4'') \<and>
      fst (transpose_pitch E c (JStr ''M3'') (JStr ''C4'')) = Inr (JStr ''E4''))"
  using transpose_C4_M3 [of c E] transpose_commute [of E c "JStr ''M3''" "JStr ''C4''"]
  by (simp add: transpose_commute [of E c a b])

theorem transpose_symmetric_witness:
  "fst (transpose_pitch sampleExt Map.empty (JStr ''C4'') (JStr ''M3'')) = Inr (JStr ''E4'') \<and>
   fst (transpose_pitch sampleExt Map.empty (JStr ''M3'') (JStr ''C4'')) = Inr (JStr ''E4'') \<and>
   transpose_pitch sampleExt Map.empty (JArr [4, - 2, 1]) (JArr [0, 4])
     = transpose_pitch sampleExt Map.empty (JArr [0, 4]) (JArr [4, - 2, 1])"
  using transpose_symmetric [of sampleExt Map.empty "JArr [4, - 2, 1]" "JArr [0, 4]"]
  by (simp add: sampleExt_def)

lemma strIvl_interval:
  "\<exists>s. strIvl E (f # e # d # r) = Inr (JStr s)"
  by (simp add: strIvl_def Let_def)

lemma transpose_two_intervals:
  assumes "expectPitch E c a = (JArr (i0 # i1 # i2 # ir), c1)"
    "expectPitch E c1 b = (JArr (p0 # p1 # p2 # pr), c2)"
  shows "transpose_pitch E c a b =
           (strIvl E [i0 + p0, i1 + p1,
                      if 7 * (i0 + p0) + 12 * (i1 + p1) < 0 then - 1 else 1], c2)"
  unfolding transpose_unfold [OF assms]
  by (simp add: Let_def toPitchStr_def strPitch_def)

lemma strIvl_rendering:
  assumes "d \<noteq> 0"
  shows "strIvl E [f, e, d] =
           (let dec = \<lparr> step = decodeStep f, alt = decodeAlt f,
                         oct = Some (e + 4 * decodeAlt f + FIFTH_OCTS ! nat (decodeStep f)),
                         dir = Some d \<rparr>
            in Inr (JStr (show_int (d * calcNum dec)
                          @ ivl_altToQ E (calcNum dec) (calcAlt E dec))))"
  using assms by (simp add: strIvl_def Let_def num0_def)

lemma transpose_no_interval:
  assumes "expectPitch E c a = (pa, c1)" "expectPitch E c1 b = (pb, c2)"
    "\<not> isInterval pa" "\<not> isInterval pb"
  shows "transpose_pitch E c a b = (Inr JNull, c2)"
  unfolding transpose_unfold [OF assms(1,2)] using assms(3,4)
  by (simp add: toPitchStr_def)

text \<open>
  An interval with an operand that does not parse: \<open>trBy\<close> reads a component of
  \<open>null\<close>, and the call throws.
\<close>

lemma transpose_interval_with_unparsed:
  "fst (transpose_pitch sampleExt Map.empty (JStr ''H9'') (JStr ''M3'')) = Inl TypeError"
proof -
  have l1: "literal sampleExt ''H9'' = None"
    by (simp add: literal_def sampleExt_def)
  have l2: "literal sampleExt ''M3'' = Some [4, - 2, 1]"
    by (simp add: literal_def sampleExt_def pitch_def encPC_def encOct_def FIFTHS_def
        FIFTH_OCTS_def fifthsSpan_def)
  have 1: "expectPitch sampleExt Map.empty (JStr ''H9'') = (JNull, Map.empty)"
    using l1 by (simp add: expectPitch_string)
  have 2: "expectPitch sampleExt Map.empty (JStr ''M3'')
             = (JArr [4, - 2, 1], [''M3'' \<mapsto> [4, - 2, 1]])"
    using l2 by (simp add: expectPitch_string)
  show ?thesis
    unfolding transpose_unfold [OF 1 2] by simp
qed

text \<open>
  Claim C3, as stated, at two interval-shaped operands, both the major third
  \<open>[4, -2, 1]\<close>: \<open>transpose\<close> returns their sum, the augmented fifth, and not \<open>null\<close>.
\<close>

theorem transpose_two_thirds_counterexample:
  "fst (transpose_pitch sampleExt Map.empty (JArr [4, - 2, 1]) (JArr [4, - 2, 1])) = Inr (JStr ''5A'') \<and>
   fst (transpose_pitch sampleExt Map.empty (JArr [4, - 2, 1]) (JArr [4, - 2, 1])) \<noteq> Inr JNull"
proof -
  have 1: "expectPitch sampleExt Map.empty (JArr [4, - 2, 1]) = (JArr [4, - 2, 1], Map.empty)"
    by (simp add: expectPitch_other)
  have q: "ivl_altToQ sampleExt 5 1 = ''A''"
    by (simp add: sampleExt_def sampleAltToQ_def fillStr_def Let_def)
  have "strIvl sampleExt [8, - 4, 1] = Inr (JStr ''5A'')"
    by (simp add: strIvl_def Let_def decodeStep_def decodeAlt_def unaltered_mod STEPS_def
        FIFTH_OCTS_def FIFTHS_def fifthsSpan_def calcNum_def calcAlt_def isAsc_def num0_def
        q show_int_5)
  then show ?thesis
    unfolding transpose_unfold [OF 1 1]
    by (simp add: Let_def toPitchStr_def strPitch_def)
qed

text \<open>
  Claim C3, amended: with \<open>pa\<close> and \<open>pb\<close> what the expect-a-pitch adapter makes of the
  operands, \<open>transpose\<close> returns \<open>null\<close> whenever neither is interval-shaped, which
  includes one or both failing to parse beside a non-interval; and whenever both are
  interval-shaped it returns a string, which for components of magnitude at most
  \<open>2^40\<close> (where the arithmetic of the source is exact) is the rendering of the sum of
  the two intervals: the fifths added, the octaves added, the direction the sign of the
  height of the sum (ascending at 0), written as the direction times the interval
  number followed by the quality. What happens to an interval beside an operand that
  fails to parse is left out.
\<close>

theorem transpose_shapes:
  "(expectPitch E c a = (pa, c1) \<and> expectPitch E c1 b = (pb, c2) \<and>
    \<not> isInterval pa \<and> \<not> isInterval pb \<longrightarrow>
      transpose_pitch E c a b = (Inr JNull, c2)) \<and>
   (expectPitch E c a = (JArr (i0 # i1 # i2 # ir), c1) \<and>
    expectPitch E c1 b = (JArr (p0 # p1 # p2 # pr), c2) \<longrightarrow>
      (\<exists>s. transpose_pitch E c a b = (Inr (JStr s), c2)) \<and>
      (\<bar>i0\<bar> \<le> 2 ^ 40 \<and> \<bar>i1\<bar> \<le> 2 ^ 40 \<and> \<bar>p0\<bar> \<le> 2 ^ 40 \<and> \<bar>p1\<bar> \<le> 2 ^ 40 \<longrightarrow>
         (let f = i0 + p0;
              e = i1 + p1;
              d = (if 7 * f + 12 * e < 0 then - 1 else 1);
              dec = \<lparr> step = decodeStep f, alt = decodeAlt f,
                       oct = Some (e + 4 * decodeAlt f + FIFTH_OCTS ! nat (decodeStep f)),
                       dir = Some d \<rparr>
          in transpose_pitch E c a b = (strIvl E [f, e, d], c2) \<and>
             strIvl E [f, e, d] =
               Inr (JStr (show_int (d * calcNum dec)
                          @ ivl_altToQ E (calcNum dec) (calcAlt E dec))))))"
proof -
  have two: "transpose_pitch E c a b =
               (strIvl E [i0 + p0, i1 + p1,
                          if 7 * (i0 + p0) + 12 * (i1 + p1) < 0 then - 1 else 1], c2)"
    if "expectPitch E c a = (JArr (i0 # i1 # i2 # ir), c1)"
      "expectPitch E c1 b = (JArr (p0 # p1 # p2 # pr), c2)"
    using that by (rule transpose_two_intervals)
  have ren: "strIvl E [i0 + p0, i1 + p1, if 7 * (i0 + p0) + 12 * (i1 + p1) < 0 then - 1 else 1] =
               (let dec = \<lparr> step = decodeStep (i0 + p0), alt = decodeAlt (i0 + p0),
                             oct = Some (i1 + p1 + 4 * decodeAlt (i0 + p0)
                                         + FIFTH_OCTS ! nat (decodeStep (i0 + p0))),
                             dir = Some (if 7 * (i0 + p0) + 12 * (i1 + p1) < 0 then - 1 else 1) \<rparr>
                in Inr (JStr (show_int ((if 7 * (i0 + p0) + 12 * (i1 + p1) < 0 then - 1 else 1)
                                        * calcNum dec)
                              @ ivl_altToQ E (calcNum dec) (calcAlt E dec))))"
    by (rule strIvl_rendering) simp
  show ?thesis
    using transpose_no_interval [of E c a pa c1 b pb c2] two ren
    by (auto simp add: Let_def)
qed

theorem transpose_shapes_witness:
  "fst (transpose_pitch sampleExt Map.empty (JStr ''H9'') (JArr [0, 4])) = Inr JNull \<and>
   fst (transpose_pitch sampleExt Map.empty (JArr [0]) (JArr [0, 4])) = Inr JNull \<and>
   fst (transpose_pitch sampleExt Map.empty (JArr [4, - 2, 1]) (JArr [4, - 2, 1]))
     = strIvl sampleExt [8, - 4, 1] \<and>
   strIvl sampleExt [8, - 4, 1] = Inr (JStr ''5A'')"
proof -
  have l1: "literal sampleExt ''H9'' = None"
    by (simp add: literal_def sampleExt_def)
  have 1: "expectPitch sampleExt Map.empty (JStr ''H9'') = (JNull, Map.empty)"
    using l1 by (simp add: expectPitch_string)
  have 2: "expectPitch sampleExt Map.empty (JArr [0, 4]) = (JArr [0, 4], Map.empty)"
    "expectPitch sampleExt Map.empty (JArr [0]) = (JArr [0], Map.empty)"
    "expectPitch sampleExt Map.empty (JArr [4, - 2, 1]) = (JArr [4, - 2, 1], Map.empty)"
    by (simp_all add: expectPitch_other)
  have q: "ivl_altToQ sampleExt 5 1 = ''A''"
    by (simp add: sampleExt_def sampleAltToQ_def fillStr_def Let_def)
  have r: "strIvl sampleExt [8, - 4, 1] = Inr (JStr ''5A'')"
    by (simp add: strIvl_def Let_def decodeStep_def decodeAlt_def unaltered_mod STEPS_def
        FIFTH_OCTS_def FIFTHS_def fifthsSpan_def calcNum_def calcAlt_def isAsc_def num0_def
        q show_int_5)
  have a: "fst (transpose_pitch sampleExt Map.empty (JStr ''H9'') (JArr [0, 4])) = Inr JNull"
    using transpose_shapes [of sampleExt Map.empty "JStr ''H9''" JNull Map.empty "JArr [0, 4]"
        "JArr [0, 4]" Map.empty 0 0 0 "[]" 0 0 0 "[]"] 1 2
    by simp
  have b: "fst (transpose_pitch sampleExt Map.empty (JArr [0]) (JArr [0, 4])) = Inr JNull"
    using transpose_shapes [of sampleExt Map.empty "JArr [0]" "JArr [0]" Map.empty "JArr [0, 4]"
        "JArr [0, 4]" Map.empty 0 0 0 "[]" 0 0 0 "[]"] 2
    by simp
  have c: "fst (transpose_pitch sampleExt Map.empty (JArr [4, - 2, 1]) (JArr [4, - 2, 1]))
             = strIvl sampleExt [8, - 4, 1]"
    using transpose_shapes [of sampleExt Map.empty "JArr [4, - 2, 1]" JNull Map.empty
        "JArr [4, - 2, 1]" JNull Map.empty 4 "- 2" 1 "[]" 4 "- 2" 1 "[]"] 2
    by (simp add: Let_def)
  from a b c r show ?thesis by simp
qed

section \<open>Forcing a direction\<close>











lemma direction_up:
  "direction xs (JNum 1) =
     Inr (case xs of [] \<Rightarrow> [] | first # rest \<Rightarrow> first # direction_loop GT 1 first rest)"
  by (simp add: direction_def Let_def)

lemma direction_down:
  "direction xs (JNum (- 1)) =
     Inr (case xs of [] \<Rightarrow> [] | first # rest \<Rightarrow> first # direction_loop LT 0 first rest)"
  by (simp add: direction_def Let_def)

text \<open>
  A note a whole number of octaves above the previous kept one, descending: it is moved
  onto the height of the previous one, where the ascending loop moves a note a whole
  number of octaves below the previous one strictly above it.
\<close>

lemma direction_whole_octave:
  "direction [\<lparr> letter = 0, acc = 0, octave = 4 \<rparr>, \<lparr> letter = 0, acc = 0, octave = 5 \<rparr>] (JNum (- 1))
     = Inr [\<lparr> letter = 0, acc = 0, octave = 4 \<rparr>, \<lparr> letter = 0, acc = 0, octave = 4 \<rparr>]"
  "direction [\<lparr> letter = 0, acc = 0, octave = 4 \<rparr>, \<lparr> letter = 0, acc = 0, octave = 3 \<rparr>] (JNum 1)
     = Inr [\<lparr> letter = 0, acc = 0, octave = 4 \<rparr>, \<lparr> letter = 0, acc = 0, octave = 5 \<rparr>]"
  by (simp_all add: direction_up direction_down GT_def LT_def Let_def note_midi_def encPC_def
      encOct_def FIFTHS_def FIFTH_OCTS_def fifthsSpan_def)




text \<open>
  Claim C5, as stated, at the direction 0 and at an absent direction: the call does
  not abort; it returns the ascending result.
\<close>

theorem direction_zero_counterexample:
  "direction [\<lparr> letter = 0, acc = 0, octave = 4 \<rparr>, \<lparr> letter = 4, acc = 0, octave = 3 \<rparr>] (JNum 0)
     = Inr [\<lparr> letter = 0, acc = 0, octave = 4 \<rparr>, \<lparr> letter = 4, acc = 0, octave = 4 \<rparr>] \<and>
   direction [\<lparr> letter = 0, acc = 0, octave = 4 \<rparr>, \<lparr> letter = 4, acc = 0, octave = 3 \<rparr>] JUndefined
     = Inr [\<lparr> letter = 0, acc = 0, octave = 4 \<rparr>, \<lparr> letter = 4, acc = 0, octave = 4 \<rparr>]"
  by (simp add: direction_def GT_def Let_def note_midi_def encPC_def
      encOct_def FIFTHS_def FIFTH_OCTS_def fifthsSpan_def)

text \<open>
  Claim C5, amended: for every direction value that is truthy and is not exactly the
  number +1 or -1, the call aborts with the direction error, whatever the list; a falsy
  value (0, absent, \<open>null\<close>, NaN, the empty string) is replaced by +1, and the call
  returns what the ascending call returns; with +1 or -1 the call returns a list.
\<close>

theorem direction_flag:
  "(truthy d \<and> d \<noteq> JNum 1 \<and> d \<noteq> JNum (- 1) \<longrightarrow> direction xs d = Inl (DirectionNotValid d)) \<and>
   (\<not> truthy d \<longrightarrow> direction xs d = direction xs (JNum 1)) \<and>
   (\<exists>r. direction xs (JNum 1) = Inr r) \<and>
   (\<exists>r. direction xs (JNum (- 1)) = Inr r)"
  by (simp add: direction_def Let_def)

theorem direction_flag_witness:
  "direction [] (JNum 2) = Inl (DirectionNotValid (JNum 2)) \<and>
   direction [] (JStr ''1'') = Inl (DirectionNotValid (JStr ''1'')) \<and>
   direction [] (JNum 0) = direction [] (JNum 1) \<and>
   direction [] JUndefined = direction [] (JNum 1)"
  using direction_flag [of "JNum 2" "[]"] direction_flag [of "JStr ''1''" "[]"]
    direction_flag [of "JNum 0" "[]"] direction_flag [of JUndefined "[]"]
  by simp

end
